theory Spec2Isabelle
  imports Main "HOL-Library.Sublist"
begin

section \<open>Python strings\<close>

text \<open>
  A Python \<^verbatim>\<open>str\<close> is a sequence of Unicode code points, and \<^verbatim>\<open>len\<close>, slicing,
  \<^verbatim>\<open>replace\<close>, \<^verbatim>\<open>strip\<close> and \<^verbatim>\<open>startswith\<close> all count code points. A string is
  therefore a list of code points (natural numbers), not a list of bytes; the ASCII part of
  a literal is written with \<open>ascii\<close>, the other code points are written as numbers.
\<close>

type_synonym codepoint = nat
type_synonym pystr = "codepoint list"

definition ascii :: "string \<Rightarrow> pystr" where
  "ascii s = map of_char s"

text \<open>The code point of the backtick, and the two code-fence markers of the source.\<close>

definition backtick :: codepoint where
  "backtick = 96"

definition fence :: pystr where
  "fence = [backtick, backtick, backtick]"

definition fence_mermaid :: pystr where
  "fence_mermaid = fence @ ascii ''mermaid''"

text \<open>
  \<^verbatim>\<open>str.isspace\<close> on one code point: the table of CPython's
  \<^verbatim>\<open>_PyUnicode_IsWhitespace\<close>, which is what \<^verbatim>\<open>str.strip()\<close> without argument removes.
\<close>

definition is_space :: "codepoint \<Rightarrow> bool" where
  "is_space c \<longleftrightarrow>
     (9 \<le> c \<and> c \<le> 13) \<or> (28 \<le> c \<and> c \<le> 32) \<or> c = 133 \<or> c = 160 \<or> c = 5760 \<or>
     (8192 \<le> c \<and> c \<le> 8202) \<or> c = 8232 \<or> c = 8233 \<or> c = 8239 \<or> c = 8287 \<or> c = 12288"

text \<open>\<^verbatim>\<open>s.strip()\<close>: leading and trailing whitespace removed.\<close>

definition strip :: "pystr \<Rightarrow> pystr" where
  "strip s = rev (dropWhile is_space (rev (dropWhile is_space s)))"

text \<open>
  \<^verbatim>\<open>s.replace(old, new)\<close>: the occurrences of \<open>old\<close> are found from left to right
  and do not overlap. For the empty \<open>old\<close> Python puts \<open>new\<close> before every
  character and at the end.
\<close>

function replace :: "pystr \<Rightarrow> pystr \<Rightarrow> pystr \<Rightarrow> pystr" where
  "replace old new s =
     (if old = [] then new @ concat (map (\<lambda>c. c # new) s)
      else if s = [] then []
      else if prefix old s then new @ replace old new (drop (length old) s)
      else hd s # replace old new (tl s))"
  by pat_completeness auto
termination
  by (relation "measure (\<lambda>(old, new, s). length s)") auto

declare replace.simps [simp del]

text \<open>\<^verbatim>\<open>sep.join(parts)\<close>.\<close>

fun join :: "pystr \<Rightarrow> pystr list \<Rightarrow> pystr" where
  "join sep [] = []"
| "join sep [x] = x"
| "join sep (x # y # ys) = x @ sep @ join sep (y # ys)"

text \<open>\<^verbatim>\<open>str(n)\<close> for a non-negative integer: its decimal digits.\<close>

fun decimal :: "nat \<Rightarrow> pystr" where
  "decimal n = (if n < 10 then [48 + n] else decimal (n div 10) @ [48 + n mod 10])"

declare decimal.simps [simp del]

text \<open>
  The cleanup both model-calling steps apply to the model's answer:
  \<^verbatim>\<open>response.content.replace("```mermaid", "").replace("```", "").strip()\<close>.
\<close>

definition cleanup :: "pystr \<Rightarrow> pystr" where
  "cleanup content = strip (replace fence [] (replace fence_mermaid [] content))"

section \<open>Exceptions, external calls and their trace\<close>

text \<open>
  The program talks to three remote operations: \<^verbatim>\<open>notion.blocks.children.list\<close>,
  \<^verbatim>\<open>notion.blocks.children.append\<close> and \<^verbatim>\<open>llm.invoke\<close>. Each may raise. An exception
  is the value caught by \<^verbatim>\<open>except Exception as e\<close>; the only thing the program reads
  from it is \<^verbatim>\<open>str(e)\<close>. \<open>HTTPException\<close> is the one exception the program raises itself.
\<close>

datatype exn = Exception pystr | HTTPException nat pystr

fun str_exn :: "exn \<Rightarrow> pystr" where
  "str_exn (Exception msg) = msg"
| "str_exn (HTTPException status_code detail) = decimal status_code @ ascii '': '' @ detail"

text \<open>
  A block as \<^verbatim>\<open>blocks.children.list\<close> returns it: \<^verbatim>\<open>block["type"]\<close> and the
  \<^verbatim>\<open>plain_text\<close> of each item of \<^verbatim>\<open>block[block["type"]]["rich_text"]\<close>, in order. The
  program reads nothing else of a block.
\<close>

datatype block = Block (block_type: pystr) (rich_text: "pystr list")

text \<open>The four shapes of block the program appends; \<open>Code content language\<close>.\<close>

datatype new_block = Divider | Heading2 pystr | Paragraph pystr | Code pystr pystr

datatype event =
    ListChildren pystr
  | AppendChildren pystr "new_block list"
  | LlmInvoke pystr

type_synonym trace = "event list"

text \<open>
  The outside world: what each remote call answers, given the calls made so far and the
  arguments. \<open>children_list\<close> gives \<^verbatim>\<open>blocks["results"]\<close>, \<open>llm_invoke\<close> gives
  \<^verbatim>\<open>response.content\<close>, \<open>children_append\<close> gives the exception raised, if any (the
  program ignores the value returned).
\<close>

record env =
  children_list :: "trace \<Rightarrow> pystr \<Rightarrow> exn + block list"
  children_append :: "trace \<Rightarrow> pystr \<Rightarrow> new_block list \<Rightarrow> exn option"
  llm_invoke :: "trace \<Rightarrow> pystr \<Rightarrow> exn + pystr"

text \<open>
  A computation takes the trace of the calls made so far and gives its outcome (an
  exception or a value) with the trace extended by the calls it made.
\<close>

type_synonym 'a io = "trace \<Rightarrow> (exn + 'a) \<times> trace"

definition io_return :: "'a \<Rightarrow> 'a io" where
  "io_return x tr = (Inr x, tr)"

definition io_raise :: "exn \<Rightarrow> 'a io" where
  "io_raise e tr = (Inl e, tr)"

definition io_bind :: "'a io \<Rightarrow> ('a \<Rightarrow> 'b io) \<Rightarrow> 'b io" where
  "io_bind m f tr = (case m tr of (Inl e, tr') \<Rightarrow> (Inl e, tr') | (Inr x, tr') \<Rightarrow> f x tr')"

text \<open>
  The body of a \<^verbatim>\<open>try\<close>: its outcome becomes a value, on which the continuation
  chooses between the \<^verbatim>\<open>except\<close> branch and the rest of the function.
\<close>

definition attempt :: "'a io \<Rightarrow> (exn + 'a) io" where
  "attempt m tr = (case m tr of (r, tr') \<Rightarrow> (Inr r, tr'))"

definition notion_list :: "env \<Rightarrow> pystr \<Rightarrow> block list io" where
  "notion_list env block_id tr = (children_list env tr block_id, tr @ [ListChildren block_id])"

definition notion_append :: "env \<Rightarrow> pystr \<Rightarrow> new_block list \<Rightarrow> unit io" where
  "notion_append env block_id children tr =
     ((case children_append env tr block_id children of Some e \<Rightarrow> Inl e | None \<Rightarrow> Inr ()),
      tr @ [AppendChildren block_id children])"

definition llm :: "env \<Rightarrow> pystr \<Rightarrow> pystr io" where
  "llm env prompt tr = (llm_invoke env tr prompt, tr @ [LlmInvoke prompt])"

section \<open>Data models\<close>

record AgentState =
  raw_notes :: pystr
  refined_notes :: "pystr option"
  mermaid_code :: "pystr option"
  page_id :: pystr

datatype PageContext = PageContext (ctx_page_id: pystr)

datatype DiagramInput = DiagramInput (label: pystr) (diagram_code: pystr)

datatype CombineDiagramsContext =
  CombineDiagramsContext (diagrams: "DiagramInput list") (title: pystr)

section \<open>The two nodes and the workflow\<close>

text \<open>
  A node returns a dictionary from state keys to values. The graph library writes each entry
  of it into the state (no key of \<open>AgentState\<close> has a reducer, so a write replaces the
  value) and leaves the other keys as they are.
\<close>

datatype state_key = Key_raw_notes | Key_refined_notes | Key_mermaid_code | Key_page_id

type_synonym state_update = "(state_key \<times> pystr) list"

fun write_key :: "AgentState \<Rightarrow> state_key \<times> pystr \<Rightarrow> AgentState" where
  "write_key s (Key_raw_notes, v) = s\<lparr>raw_notes := v\<rparr>"
| "write_key s (Key_refined_notes, v) = s\<lparr>refined_notes := Some v\<rparr>"
| "write_key s (Key_mermaid_code, v) = s\<lparr>mermaid_code := Some v\<rparr>"
| "write_key s (Key_page_id, v) = s\<lparr>page_id := v\<rparr>"

definition apply_update :: "AgentState \<Rightarrow> state_update \<Rightarrow> AgentState" where
  "apply_update s u = foldl write_key s u"

definition rewrite_prompt :: "pystr \<Rightarrow> pystr" where
  "rewrite_prompt notes =
     ascii ''\<newline>    Refine these raw notes into clean, structured Markdown.\<newline>''
     @ ascii ''    Use headers, bullets, and bold text. Keep all information.\<newline>''
     @ ascii ''    \<newline>''
     @ ascii ''    Raw Notes:\<newline>''
     @ ascii ''    '' @ notes @ ascii ''\<newline>''
     @ ascii ''    ''"

definition rewrite_notes_node :: "env \<Rightarrow> AgentState \<Rightarrow> state_update io" where
  "rewrite_notes_node env state =
     io_bind (llm env (rewrite_prompt (raw_notes state)))
       (\<lambda>content. io_return [(Key_refined_notes, content)])"

text \<open>
  \<^verbatim>\<open>state.refined_notes or state.raw_notes\<close>: the left operand unless it is falsy, and
  both \<^verbatim>\<open>None\<close> and the empty string are falsy.
\<close>

definition diagram_content :: "AgentState \<Rightarrow> pystr" where
  "diagram_content state =
     (case refined_notes state of
        None \<Rightarrow> raw_notes state
      | Some r \<Rightarrow> if r = [] then raw_notes state else r)"

definition diagram_prompt :: "pystr \<Rightarrow> pystr" where
  "diagram_prompt content =
     ascii ''\<newline>    Analyze this text and generate a Mermaid.js diagram (graph TD or sequenceDiagram)\<newline>''
     @ ascii ''    that represents the system architecture or flow.\<newline>''
     @ ascii ''    Return ONLY the Mermaid code, no markdown code blocks.\<newline>''
     @ ascii ''    \<newline>''
     @ ascii ''    Text:\<newline>''
     @ ascii ''    '' @ content @ ascii ''\<newline>''
     @ ascii ''    ''"

definition generate_diagram_node :: "env \<Rightarrow> AgentState \<Rightarrow> state_update io" where
  "generate_diagram_node env state =
     io_bind (llm env (diagram_prompt (diagram_content state)))
       (\<lambda>content. io_return [(Key_mermaid_code, cleanup content)])"

text \<open>
  The compiled workflow: entry point \<open>refiner\<close>, then \<open>architect\<close>, then the end. An
  exception in a node leaves \<^verbatim>\<open>app.invoke\<close> at once.
\<close>

definition app_invoke :: "env \<Rightarrow> AgentState \<Rightarrow> AgentState io" where
  "app_invoke env state =
     io_bind (rewrite_notes_node env state) (\<lambda>u1.
     let state1 = apply_update state u1 in
     io_bind (generate_diagram_node env state1) (\<lambda>u2.
     io_return (apply_update state1 u2)))"

section \<open>The tools\<close>

subsection \<open>\<open>process_research_page\<close>\<close>

text \<open>
  The loop of part A: the text runs of every block of type \<open>paragraph\<close> whose
  \<open>rich_text\<close> is not empty, in order.
\<close>

fun paragraph_parts :: "block list \<Rightarrow> pystr list" where
  "paragraph_parts [] = []"
| "paragraph_parts (b # bs) =
     (if block_type b = ascii ''paragraph'' \<and> rich_text b \<noteq> [] then rich_text b else [])
     @ paragraph_parts bs"

definition read_raw_text :: "env \<Rightarrow> pystr \<Rightarrow> pystr io" where
  "read_raw_text env pid =
     io_bind (notion_list env pid) (\<lambda>blocks.
     io_return (join (ascii ''\<newline>'') (paragraph_parts blocks)))"

definition empty_page_warning :: pystr where
  "empty_page_warning = [0x26A0, 0xFE0F] @ ascii '' Page is empty or contains no paragraph text.''"

definition refined_heading :: pystr where
  "refined_heading = [0x2728] @ ascii '' Refined Notes''"

definition diagram_heading :: pystr where
  "diagram_heading = [0x1F4CA] @ ascii '' Architecture Diagram''"

definition success_message :: pystr where
  "success_message = [0x2705] @ ascii '' Page refined and diagram added!''"

text \<open>
  Part C, the body of the third \<^verbatim>\<open>try\<close>. \<open>result\<close> is the dictionary
  \<^verbatim>\<open>app.invoke\<close> returned: a key that is missing and a key bound to \<^verbatim>\<open>None\<close> are both
  \<open>None\<close> here, and the program treats them alike (\<^verbatim>\<open>result.get\<close>, then a truth test).
\<close>

definition write_back :: "env \<Rightarrow> pystr \<Rightarrow> AgentState \<Rightarrow> pystr io" where
  "write_back env pid result =
     io_bind (notion_append env pid [Divider]) (\<lambda>_.
     io_bind (notion_append env pid [Heading2 refined_heading]) (\<lambda>_.
     let refined_content =
           (case refined_notes result of
              None \<Rightarrow> []
            | Some r \<Rightarrow> if r \<noteq> [] then take 2000 r else [])
     in
     io_bind (if refined_content \<noteq> []
              then notion_append env pid [Paragraph refined_content]
              else io_return ()) (\<lambda>_.
     io_bind (notion_append env pid [Heading2 diagram_heading]) (\<lambda>_.
     io_bind (case mermaid_code result of
                None \<Rightarrow> io_return ()
              | Some code \<Rightarrow>
                  if code \<noteq> [] then notion_append env pid [Code code (ascii ''mermaid'')]
                  else io_return ()) (\<lambda>_.
     io_return success_message)))))"

definition process_research_page :: "env \<Rightarrow> PageContext \<Rightarrow> pystr io" where
  "process_research_page env ctx =
     (let pid = ctx_page_id ctx in
      io_bind (attempt (read_raw_text env pid)) (\<lambda>a.
      case a of
        Inl e \<Rightarrow> io_return (ascii ''Error reading Notion: '' @ str_exn e)
      | Inr raw_text \<Rightarrow>
          if strip raw_text = [] then io_return empty_page_warning
          else
            io_bind (attempt (app_invoke env
                       \<lparr>raw_notes = raw_text, refined_notes = None, mermaid_code = None,
                        page_id = pid\<rparr>)) (\<lambda>b.
            case b of
              Inl e \<Rightarrow> io_return (ascii ''Error running agent: '' @ str_exn e)
            | Inr result \<Rightarrow>
                io_bind (attempt (write_back env pid result)) (\<lambda>c.
                case c of
                  Inl e \<Rightarrow> io_return (ascii ''Error writing to Notion: '' @ str_exn e)
                | Inr message \<Rightarrow> io_return message))))"

subsection \<open>\<open>get_page_content\<close>\<close>

definition heading_types :: "pystr list" where
  "heading_types = [ascii ''heading_1'', ascii ''heading_2'', ascii ''heading_3'']"

text \<open>
  \<^verbatim>\<open>int(block_type[-1])\<close>, read only where \<open>block_type\<close> is one of \<open>heading_types\<close>, so
  that the last character is a digit.
\<close>

definition heading_level :: "pystr \<Rightarrow> nat" where
  "heading_level bt = last bt - 48"

fun content_parts :: "block list \<Rightarrow> pystr list" where
  "content_parts [] = []"
| "content_parts (b # bs) =
     (if block_type b = ascii ''paragraph'' \<and> rich_text b \<noteq> [] then rich_text b
      else if block_type b \<in> set heading_types then
        (if rich_text b \<noteq> []
         then [ascii ''\<newline>'' @ replicate (heading_level (block_type b)) 35 @ ascii '' ''
               @ concat (rich_text b) @ ascii ''\<newline>'']
         else [])
      else if block_type b = ascii ''bulleted_list_item'' \<and> rich_text b \<noteq> []
        then map (\<lambda>t. [0x2022] @ ascii '' '' @ t) (rich_text b)
      else [])
     @ content_parts bs"

definition page_empty_warning :: pystr where
  "page_empty_warning = [0x26A0, 0xFE0F] @ ascii '' Page is empty.''"

definition get_page_content :: "env \<Rightarrow> PageContext \<Rightarrow> pystr io" where
  "get_page_content env ctx =
     (let pid = ctx_page_id ctx in
      io_bind (attempt (io_bind (notion_list env pid) (\<lambda>blocks.
                 let raw_text_parts = content_parts blocks in
                 io_return (if raw_text_parts \<noteq> [] then join (ascii ''\<newline>'') raw_text_parts
                            else page_empty_warning)))) (\<lambda>a.
      case a of
        Inl e \<Rightarrow> io_return (ascii ''Error reading Notion: '' @ str_exn e)
      | Inr text \<Rightarrow> io_return text))"

subsection \<open>\<open>combine_architecture_diagrams\<close>\<close>

definition no_diagrams_warning :: pystr where
  "no_diagrams_warning = [0x26A0, 0xFE0F] @ ascii '' No diagrams provided to combine.''"

definition diagram_section :: "DiagramInput \<Rightarrow> pystr" where
  "diagram_section d =
     ascii ''### '' @ label d @ ascii ''\<newline>'' @ fence_mermaid @ ascii ''\<newline>''
     @ diagram_code d @ ascii ''\<newline>'' @ fence"

definition combine_prompt :: "CombineDiagramsContext \<Rightarrow> pystr" where
  "combine_prompt ctx =
     (let diagrams_text = join (ascii ''\<newline>\<newline>'') (map diagram_section (diagrams ctx)) in
      ascii ''\<newline>    You are an expert at creating Mermaid.js architecture diagrams.\<newline>''
      @ ascii ''    \<newline>''
      @ ascii ''    I have '' @ decimal (length (diagrams ctx))
      @ ascii '' separate architecture diagrams that I need you to combine \<newline>''
      @ ascii ''    into ONE unified system architecture diagram titled '' @ [34] @ title ctx @ [34]
      @ ascii ''.\<newline>''
      @ ascii ''    \<newline>''
      @ ascii ''    Requirements:\<newline>''
      @ ascii ''    1. Create a single cohesive graph TD diagram\<newline>''
      @ ascii ''    2. Group each original diagram as a named subgraph\<newline>''
      @ ascii ''    3. Identify logical connections BETWEEN the different systems\<newline>''
      @ ascii ''    4. Use consistent styling and clear node names\<newline>''
      @ ascii ''    5. Add a main title subgraph wrapping everything\<newline>''
      @ ascii ''    6. Keep node labels concise but descriptive\<newline>''
      @ ascii ''    7. Return ONLY the Mermaid code, no markdown blocks or explanations\<newline>''
      @ ascii ''    \<newline>''
      @ ascii ''    Here are the diagrams to combine:\<newline>''
      @ ascii ''    \<newline>''
      @ ascii ''    '' @ diagrams_text @ ascii ''\<newline>''
      @ ascii ''    \<newline>''
      @ ascii ''    Generate the combined Mermaid diagram:\<newline>''
      @ ascii ''    '')"

definition combine_architecture_diagrams :: "env \<Rightarrow> CombineDiagramsContext \<Rightarrow> pystr io" where
  "combine_architecture_diagrams env ctx =
     (case diagrams ctx of
        [] \<Rightarrow> io_return no_diagrams_warning
      | [d] \<Rightarrow> io_return (diagram_code d)
      | _ \<Rightarrow>
          io_bind (attempt (io_bind (llm env (combine_prompt ctx)) (\<lambda>content.
                     io_return (cleanup content)))) (\<lambda>a.
          case a of
            Inl e \<Rightarrow> io_return (ascii ''Error combining diagrams: '' @ str_exn e)
          | Inr code \<Rightarrow> io_return code))"

section \<open>The HTTP surface\<close>

type_synonym json_object = "(pystr \<times> pystr) list"

definition raise_if_error :: "pystr \<Rightarrow> unit io" where
  "raise_if_error result =
     (if prefix (ascii ''Error'') result then io_raise (HTTPException 400 result)
      else io_return ())"

definition get_content :: "env \<Rightarrow> pystr \<Rightarrow> json_object io" where
  "get_content env pid =
     io_bind (get_page_content env (PageContext pid)) (\<lambda>result.
     io_bind (raise_if_error result) (\<lambda>_.
     io_return [(ascii ''page_id'', pid), (ascii ''content'', result)]))"

definition process_page :: "env \<Rightarrow> pystr \<Rightarrow> json_object io" where
  "process_page env pid =
     io_bind (process_research_page env (PageContext pid)) (\<lambda>result.
     io_bind (raise_if_error result) (\<lambda>_.
     io_return [(ascii ''page_id'', pid), (ascii ''result'', result)]))"

definition combine_diagrams :: "env \<Rightarrow> CombineDiagramsContext \<Rightarrow> json_object io" where
  "combine_diagrams env request =
     io_bind (combine_architecture_diagrams env request) (\<lambda>result.
     io_bind (raise_if_error result) (\<lambda>_.
     io_return [(ascii ''title'', title request), (ascii ''combined_diagram'', result)]))"

text \<open>
  The web framework renders a response body as UTF-8 JSON
  (\<^verbatim>\<open>json.dumps(..., ensure_ascii=False).encode("utf-8")\<close>). The encoding raises on a
  surrogate code point (U+D800 to U+DFFF), so a string can be sent only if it has none.
\<close>

definition encodable :: "pystr \<Rightarrow> bool" where
  "encodable s = list_all (\<lambda>c. c < 0xD800 \<or> 0xDFFF < c) s"

definition encodable_object :: "json_object \<Rightarrow> bool" where
  "encodable_object obj = list_all (\<lambda>(k, v). encodable k \<and> encodable v) obj"

text \<open>
  What the web framework sends for the outcome of a handler: the returned object with
  status 200; for an \<open>HTTPException\<close> its status code with the detail as the body's
  \<open>detail\<close>; for any other exception status 500. When the body cannot be rendered the
  rendering raises, in the first case and in the second alike, and the answer is status 500.
\<close>

datatype http_response = JSONResponse nat json_object | ServerError nat

fun respond :: "exn + json_object \<Rightarrow> http_response" where
  "respond (Inr obj) = (if encodable_object obj then JSONResponse 200 obj else ServerError 500)"
| "respond (Inl (HTTPException status_code detail)) =
     (if encodable detail then JSONResponse status_code [(ascii ''detail'', detail)]
      else ServerError 500)"
| "respond (Inl (Exception msg)) = ServerError 500"

fun status :: "http_response \<Rightarrow> nat" where
  "status (JSONResponse code obj) = code"
| "status (ServerError code) = code"

definition serve :: "json_object io \<Rightarrow> trace \<Rightarrow> http_response \<times> trace" where
  "serve handler tr = (case handler tr of (r, tr') \<Rightarrow> (respond r, tr'))"

section \<open>Concrete environments and auxiliary notions\<close>

text \<open>An outside world whose three operations answer the same whatever they are asked.\<close>

definition fixed_env :: "exn + block list \<Rightarrow> exn option \<Rightarrow> exn + pystr \<Rightarrow> env" where
  "fixed_env listed appended answered =
     \<lparr>children_list = (\<lambda>tr pid. listed), children_append = (\<lambda>tr pid ch. appended),
      llm_invoke = (\<lambda>tr prompt. answered)\<rparr>"

text \<open>
  A page of two paragraphs, a store that accepts every append, and a model that answers
  \<^verbatim>\<open>graph TD\<close>.
\<close>

definition sample_env :: env where
  "sample_env = fixed_env
     (Inr [Block (ascii ''paragraph'') [ascii ''Hello''], Block (ascii ''paragraph'') [ascii ''World'']])
     None (Inr (ascii ''graph TD''))"

text \<open>Two final states of the workflow; the second has refined notes of 2001 characters.\<close>

definition sample_result :: AgentState where
  "sample_result = \<lparr>raw_notes = ascii ''Hello'', refined_notes = Some (ascii ''# Hello''),
     mermaid_code = Some (ascii ''graph TD''), page_id = ascii ''p1''\<rparr>"

definition long_result :: AgentState where
  "long_result = \<lparr>raw_notes = ascii ''Hello'', refined_notes = Some (replicate 2001 120),
     mermaid_code = None, page_id = ascii ''p1''\<rparr>"

text \<open>The number of backticks a string begins with.\<close>

definition lead :: "pystr \<Rightarrow> nat" where
  "lead s = length (takeWhile (\<lambda>c. c = backtick) s)"

section \<open>Facts about \<open>replace\<close> and \<open>strip\<close>\<close>

lemma replace_Nil: "old \<noteq> [] \<Longrightarrow> replace old new [] = []"
  by (simp add: replace.simps)

lemma replace_prefix:
  "old \<noteq> [] \<Longrightarrow> prefix old s \<Longrightarrow> replace old new s = new @ replace old new (drop (length old) s)"
  by (subst replace.simps) (auto)

lemma replace_Cons:
  "old \<noteq> [] \<Longrightarrow> \<not> prefix old (x # xs) \<Longrightarrow> replace old new (x # xs) = x # replace old new xs"
  by (subst replace.simps) simp

lemma lead_Nil [simp]: "lead [] = 0"
  by (simp add: lead_def)

lemma lead_Cons [simp]: "lead (x # xs) = (if x = backtick then Suc (lead xs) else 0)"
  by (simp add: lead_def)

lemma fence_ne [simp]: "fence \<noteq> []" "length fence = 3"
  by (simp_all add: fence_def)

lemma prefix_fence_lead: "prefix fence s \<longleftrightarrow> 3 \<le> lead s"
proof (cases s)
  case Nil
  then show ?thesis by (simp add: fence_def)
next
  case s1: (Cons a as)
  show ?thesis
  proof (cases as)
    case Nil
    then show ?thesis using s1 by (simp add: fence_def)
  next
    case s2: (Cons b bs)
    show ?thesis
    proof (cases bs)
      case Nil
      then show ?thesis using s1 s2 by (simp add: fence_def)
    next
      case (Cons c cs)
      then show ?thesis using s1 s2 by (auto simp add: fence_def)
    qed
  qed
qed

lemma lead_drop_fence: "prefix fence s \<Longrightarrow> lead (drop 3 s) = lead s - 3"
  by (auto simp add: prefix_def fence_def)

lemma lead_replace_fence: "lead (replace fence [] s) = lead s mod 3"
proof (induction "length s" arbitrary: s rule: less_induct)
  case less
  show ?case
  proof (cases "prefix fence s")
    case True
    then have len: "length (drop 3 s) < length s"
      by (auto simp add: prefix_def)
    have "lead (replace fence [] s) = lead (replace fence [] (drop 3 s))"
      using True by (simp add: replace_prefix)
    also have "\<dots> = lead (drop 3 s) mod 3"
      using less [OF len] .
    also have "\<dots> = lead s mod 3"
      using True lead_drop_fence [OF True] prefix_fence_lead [of s]
      by (simp add: le_mod_geq)
    finally show ?thesis .
  next
    case False
    show ?thesis
    proof (cases s)
      case Nil
      then show ?thesis by (simp add: replace_Nil)
    next
      case (Cons x xs)
      have small: "lead s < 3"
        using False prefix_fence_lead [of s] by simp
      have IH: "lead (replace fence [] xs) = lead xs mod 3"
        using less [of xs] Cons by simp
      have "replace fence [] s = x # replace fence [] xs"
        using False Cons by (simp add: replace_Cons)
      then show ?thesis
        using small IH Cons by (auto)
    qed
  qed
qed

lemma not_prefix_fence_replace: "\<not> prefix fence (replace fence [] s)"
  by (simp add: prefix_fence_lead lead_replace_fence)

lemma not_sublist_fence_replace: "\<not> sublist fence (replace fence [] s)"
proof (induction "length s" arbitrary: s rule: less_induct)
  case less
  show ?case
  proof (cases "prefix fence s")
    case True
    then have len: "length (drop 3 s) < length s"
      by (auto simp add: prefix_def)
    have "replace fence [] s = replace fence [] (drop 3 s)"
      using True by (simp add: replace_prefix)
    then show ?thesis
      using less [OF len] by simp
  next
    case False
    show ?thesis
    proof (cases s)
      case Nil
      then show ?thesis by (simp add: replace_Nil)
    next
      case (Cons x xs)
      have eq: "replace fence [] s = x # replace fence [] xs"
        using False Cons by (simp add: replace_Cons)
      have np: "\<not> prefix fence (x # replace fence [] xs)"
        using not_prefix_fence_replace [of s] eq by simp
      have "\<not> sublist fence (replace fence [] xs)"
        using less [of xs] Cons by simp
      then show ?thesis
        using eq np by (simp add: sublist_Cons_right)
    qed
  qed
qed

lemma replace_absent:
  "old \<noteq> [] \<Longrightarrow> \<not> sublist old s \<Longrightarrow> replace old new s = s"
proof (induction s)
  case Nil
  then show ?case by (simp add: replace_Nil)
next
  case (Cons x xs)
  have np: "\<not> prefix old (x # xs)"
    using Cons.prems(2) by (meson prefix_imp_sublist)
  have ns: "\<not> sublist old xs"
    using Cons.prems(2) by (meson sublist_Cons_right)
  show ?case
    using Cons.IH [OF Cons.prems(1) ns] np Cons.prems(1) by (simp add: replace_Cons)
qed

lemma strip_decomp: "\<exists>a b. s = a @ strip s @ b"
proof -
  let ?t = "dropWhile is_space s"
  have 1: "s = takeWhile is_space s @ ?t" by simp
  have "rev ?t = takeWhile is_space (rev ?t) @ dropWhile is_space (rev ?t)" by simp
  then have "?t = rev (dropWhile is_space (rev ?t)) @ rev (takeWhile is_space (rev ?t))"
    by (metis rev_append rev_rev_ident)
  then have "s = takeWhile is_space s @ strip s @ rev (takeWhile is_space (rev ?t))"
    using 1 by (simp add: strip_def)
  then show ?thesis by blast
qed

lemma sublist_strip: "sublist (strip s) s"
  using strip_decomp [of s] by (auto simp add: sublist_def)

lemma strip_fixed:
  assumes "s = [] \<or> (\<not> is_space (hd s) \<and> \<not> is_space (last s))"
  shows "strip s = s"
proof (cases "s = []")
  case True
  then show ?thesis by (simp add: strip_def)
next
  case False
  then have h: "\<not> is_space (hd s)" and l: "\<not> is_space (last s)"
    using assms by auto
  have 1: "dropWhile is_space s = s"
    using h False by (simp add: dropWhile_eq_self_iff)
  have "hd (rev s) = last s"
    using False by (simp add: hd_rev)
  then have 2: "dropWhile is_space (rev s) = rev s"
    using l False by (simp add: dropWhile_eq_self_iff)
  show ?thesis by (simp add: strip_def 1 2)
qed

lemma strip_ends: "strip s = [] \<or> (\<not> is_space (hd (strip s)) \<and> \<not> is_space (last (strip s)))"
proof (cases "strip s = []")
  case True
  then show ?thesis by simp
next
  case False
  let ?t = "dropWhile is_space s"
  let ?d = "dropWhile is_space (rev ?t)"
  have d: "?d \<noteq> []" using False by (simp add: strip_def)
  have t: "?t \<noteq> []"
  proof
    assume a: "?t = []"
    have "?d = []" unfolding a by simp
    with d show False by simp
  qed
  have l: "\<not> is_space (last (strip s))"
    using hd_dropWhile [OF d] d by (simp add: strip_def last_rev)
  have "\<not> is_space (hd ?t)"
    using hd_dropWhile [OF t] .
  moreover have "hd (strip s) = hd ?t"
  proof -
    have "rev ?t = takeWhile is_space (rev ?t) @ ?d" by simp
    then have "?t = rev ?d @ rev (takeWhile is_space (rev ?t))"
      by (metis rev_append rev_rev_ident)
    then have "hd ?t = hd (rev ?d)"
      using d by (metis hd_append2 rev_is_Nil_conv)
    then show ?thesis by (simp add: strip_def)
  qed
  ultimately show ?thesis using l by simp
qed

lemma strip_strip: "strip (strip s) = strip s"
  using strip_ends [of s] by (rule strip_fixed)

lemma fence_mermaid_ne [simp]: "fence_mermaid \<noteq> []"
  by (simp add: fence_mermaid_def)

lemma sublist_fence_fence_mermaid: "sublist fence fence_mermaid"
  by (simp add: fence_mermaid_def)

lemma no_fence_no_fence_mermaid: "\<not> sublist fence s \<Longrightarrow> \<not> sublist fence_mermaid s"
  using sublist_fence_fence_mermaid sublist_order.order_trans by blast

lemma cleanup_no_fence: "\<not> sublist fence s \<Longrightarrow> cleanup s = strip s"
  by (simp add: cleanup_def replace_absent no_fence_no_fence_mermaid)

lemma no_fence_cleanup: "\<not> sublist fence (cleanup s)"
proof
  assume "sublist fence (cleanup s)"
  then have "sublist fence (replace fence [] (replace fence_mermaid [] s))"
    unfolding cleanup_def using sublist_strip sublist_order.order_trans by blast
  then show False by (simp add: not_sublist_fence_replace)
qed

lemma cleanup_idem: "cleanup (cleanup s) = cleanup s"
proof -
  have "cleanup (cleanup s) = strip (cleanup s)"
    using no_fence_cleanup by (rule cleanup_no_fence)
  also have "\<dots> = cleanup s"
    by (simp add: cleanup_def strip_strip)
  finally show ?thesis .
qed

lemma replace_fence_append: "\<not> sublist fence inner \<Longrightarrow> replace fence [] (inner @ fence) = inner"
proof (induction inner)
  case Nil
  have "replace fence [] fence = replace fence [] (drop (length fence) fence)"
    by (subst replace_prefix) simp_all
  then show ?case by (simp add: replace_Nil)
next
  case (Cons x xs)
  have ns: "\<not> sublist fence xs"
    using Cons.prems by (simp add: sublist_Cons_right)
  have np: "\<not> prefix fence (x # xs)"
    using Cons.prems by (meson prefix_imp_sublist)
  show ?case
  proof (cases "prefix fence (x # xs @ fence)")
    case False
    then show ?thesis using Cons.IH [OF ns] by (simp add: replace_Cons)
  next
    case True
    have "x # xs = [backtick] \<or> x # xs = [backtick, backtick]"
      using True np by (cases xs; cases "tl xs"; cases "tl (tl xs)") (auto simp add: fence_def)
    then show ?thesis
    proof
      assume e: "x # xs = [backtick]"
      have "replace fence [] ([backtick] @ fence) = replace fence [] (drop (length fence) ([backtick] @ fence))"
        by (subst replace_prefix) (simp_all add: fence_def)
      also have "\<dots> = [backtick]"
        by (simp add: fence_def replace_Cons replace_Nil)
      finally show ?thesis using e by simp
    next
      assume e: "x # xs = [backtick, backtick]"
      have "replace fence [] ([backtick, backtick] @ fence) = replace fence [] (drop (length fence) ([backtick, backtick] @ fence))"
        by (subst replace_prefix) (simp_all add: fence_def)
      also have "\<dots> = [backtick, backtick]"
        by (simp add: fence_def replace_Cons replace_Nil)
      finally show ?thesis using e by simp
    qed
  qed
qed

lemma no_fence_mermaid_append:
  assumes "\<not> sublist fence inner"
  shows "\<not> sublist fence_mermaid (inner @ fence)"
proof
  assume "sublist fence_mermaid (inner @ fence)"
  then obtain ps ss where eq: "inner @ fence = ps @ fence_mermaid @ ss"
    by (auto simp add: sublist_def)
  have "length (inner @ fence) = length (ps @ fence_mermaid @ ss)"
    using eq by simp
  then have len: "length ps + 3 \<le> length inner"
    by (simp add: fence_mermaid_def ascii_def)
  have "take (length ps + 3) (inner @ fence) = take (length ps + 3) (ps @ fence_mermaid @ ss)"
    using eq by simp
  then have "take (length ps + 3) inner = ps @ fence"
    using len by (simp add: fence_mermaid_def)
  then have "inner = ps @ fence @ drop (length ps + 3) inner"
    by (metis append_take_drop_id append_assoc)
  then have "sublist fence inner"
    unfolding sublist_def by blast
  then show False using assms by simp
qed

lemma cleanup_wrapped_mermaid:
  assumes "\<not> sublist fence inner"
  shows "cleanup (fence_mermaid @ inner @ fence) = strip inner"
proof -
  have "replace fence_mermaid [] (fence_mermaid @ inner @ fence)
          = replace fence_mermaid [] (drop (length fence_mermaid) (fence_mermaid @ inner @ fence))"
    by (subst replace_prefix) simp_all
  also have "\<dots> = inner @ fence"
    using no_fence_mermaid_append [OF assms] by (simp add: replace_absent)
  finally show ?thesis
    using assms by (simp add: cleanup_def replace_fence_append)
qed

lemma cleanup_wrapped_plain:
  assumes "\<not> sublist fence inner" and "\<not> sublist fence_mermaid (fence @ inner @ fence)"
  shows "cleanup (fence @ inner @ fence) = strip inner"
proof -
  have "replace fence [] (fence @ inner @ fence)
          = replace fence [] (drop (length fence) (fence @ inner @ fence))"
    by (subst replace_prefix) simp_all
  then show ?thesis
    using assms by (simp add: cleanup_def replace_absent replace_fence_append)
qed

lemma sublist_code:
  "sublist xs [] \<longleftrightarrow> xs = []"
  "sublist xs (y # ys) \<longleftrightarrow> prefix xs (y # ys) \<or> sublist xs ys"
  by (simp_all add: sublist_Cons_right)

section \<open>The cleanup of the model's answer\<close>

text \<open>
  C7, as the code has it. The cleanup is idempotent. On a string with no fence marker it
  is \<open>strip\<close>: the string comes back unchanged exactly when it has no leading or trailing
  whitespace, otherwise without that whitespace. On a string wrapped in fence markers
  (opening \<^verbatim>\<open>```mermaid\<close> or \<^verbatim>\<open>```\<close>, closing \<^verbatim>\<open>```\<close>) whose inner content has no
  fence marker, it gives the inner content stripped of leading and trailing whitespace;
  for the plain opening marker the wrapped string must not contain \<^verbatim>\<open>```mermaid\<close>.
\<close>

theorem cleanup_properties:
  "cleanup (cleanup s) = cleanup s \<and>
   (\<not> sublist fence s \<longrightarrow> cleanup s = strip s) \<and>
   (\<not> sublist fence s \<and> (s = [] \<or> (\<not> is_space (hd s) \<and> \<not> is_space (last s)))
      \<longrightarrow> cleanup s = s) \<and>
   (\<not> sublist fence inner \<longrightarrow> cleanup (fence_mermaid @ inner @ fence) = strip inner) \<and>
   (\<not> sublist fence inner \<and> \<not> sublist fence_mermaid (fence @ inner @ fence)
      \<longrightarrow> cleanup (fence @ inner @ fence) = strip inner)"
proof -
  have "\<not> sublist fence s \<and> (s = [] \<or> (\<not> is_space (hd s) \<and> \<not> is_space (last s)))
      \<longrightarrow> cleanup s = s"
    using cleanup_no_fence [of s] strip_fixed [of s] by auto
  then show ?thesis
    using cleanup_idem cleanup_no_fence cleanup_wrapped_mermaid cleanup_wrapped_plain
    by blast
qed

text \<open>
  The properties at the answer \<^verbatim>\<open>graph TD\<close>, bare and wrapped as
  \<^verbatim>\<open>```mermaid\ngraph TD\n```\<close>.
\<close>

theorem cleanup_properties_witness:
  "\<not> sublist fence (ascii ''graph TD'') \<and>
   cleanup (cleanup (ascii ''graph TD'')) = cleanup (ascii ''graph TD'') \<and>
   cleanup (ascii ''graph TD'') = ascii ''graph TD'' \<and>
   \<not> sublist fence (ascii ''\<newline>graph TD\<newline>'') \<and>
   cleanup (fence_mermaid @ ascii ''\<newline>graph TD\<newline>'' @ fence) = strip (ascii ''\<newline>graph TD\<newline>'') \<and>
   strip (ascii ''\<newline>graph TD\<newline>'') = ascii ''graph TD''"
proof -
  have a: "\<not> sublist fence (ascii ''graph TD'')"
    by (simp add: fence_def backtick_def ascii_def sublist_code)
  have b: "\<not> sublist fence (ascii ''\<newline>graph TD\<newline>'')"
    by (simp add: fence_def backtick_def ascii_def sublist_code)
  have c: "ascii ''graph TD'' = [] \<or>
     (\<not> is_space (hd (ascii ''graph TD'')) \<and> \<not> is_space (last (ascii ''graph TD'')))"
    by (simp add: ascii_def is_space_def)
  have d: "strip (ascii ''\<newline>graph TD\<newline>'') = ascii ''graph TD''"
    by (simp add: strip_def ascii_def is_space_def)
  show ?thesis
    using a b c d cleanup_properties [of "ascii ''graph TD''" "ascii ''\<newline>graph TD\<newline>''"]
    by blast
qed

text \<open>
  C7 as it is stated fails: the string \<^verbatim>\<open>" x"\<close> contains no fence marker, and the
  cleanup returns \<^verbatim>\<open>"x"\<close>, not the string unchanged.
\<close>

theorem cleanup_unchanged_counterexample:
  "\<not> sublist fence (ascii '' x'') \<and> cleanup (ascii '' x'') \<noteq> ascii '' x''"
proof -
  have a: "\<not> sublist fence (ascii '' x'')"
    by (simp add: fence_def backtick_def ascii_def sublist_code)
  have "strip (ascii '' x'') = ascii ''x''"
    by (simp add: strip_def ascii_def is_space_def)
  then have "cleanup (ascii '' x'') = ascii ''x''"
    using a cleanup_no_fence by simp
  then show ?thesis using a by (simp add: ascii_def)
qed

section \<open>The tools and the HTTP surface\<close>

lemmas io_defs = io_return_def io_raise_def io_bind_def attempt_def notion_list_def
  notion_append_def llm_def

subsection \<open>Merging no diagram or one diagram\<close>

text \<open>
  C1. With no diagram, \<open>combine_architecture_diagrams\<close> returns the warning, and with
  exactly one it returns that diagram's code as it is; in both cases the trace of remote
  calls is the one it started from, so the model was not called.
\<close>

theorem combine_zero_or_one:
  "(diagrams ctx = [] \<longrightarrow>
      combine_architecture_diagrams env ctx tr = (Inr no_diagrams_warning, tr)) \<and>
   (\<forall>d. diagrams ctx = [d] \<longrightarrow>
      combine_architecture_diagrams env ctx tr = (Inr (diagram_code d), tr))"
  by (simp add: combine_architecture_diagrams_def io_return_def)

text \<open>
  The two cases with a model that is down: no diagram, and the one diagram
  \<^verbatim>\<open>graph TD; a-->b\<close> labelled \<^verbatim>\<open>A\<close>.
\<close>

theorem combine_zero_or_one_witness:
  "combine_architecture_diagrams (fixed_env (Inr []) None (Inl (Exception (ascii ''down''))))
     (CombineDiagramsContext [] (ascii ''Unified Architecture'')) []
   = (Inr no_diagrams_warning, []) \<and>
   combine_architecture_diagrams (fixed_env (Inr []) None (Inl (Exception (ascii ''down''))))
     (CombineDiagramsContext [DiagramInput (ascii ''A'') (ascii ''graph TD; a-->b'')]
        (ascii ''Unified Architecture'')) []
   = (Inr (ascii ''graph TD; a-->b''), [])"
  using combine_zero_or_one
    [of "CombineDiagramsContext [] (ascii ''Unified Architecture'')"
        "fixed_env (Inr []) None (Inl (Exception (ascii ''down'')))" "[]"]
    combine_zero_or_one
    [of "CombineDiagramsContext [DiagramInput (ascii ''A'') (ascii ''graph TD; a-->b'')]
           (ascii ''Unified Architecture'')"
        "fixed_env (Inr []) None (Inl (Exception (ascii ''down'')))" "[]"]
  by simp

subsection \<open>Writing back\<close>

text \<open>
  C2. When no append call raises, the write-back phase issues, in this order and nothing
  else: the divider; the heading for the refined notes; a paragraph, which is issued only
  if \<open>refined_notes\<close> is present (and then exactly when it is not the empty string); the
  heading for the diagram; a code block of language \<open>mermaid\<close> holding the whole diagram
  text, which is issued only if \<open>mermaid_code\<close> is present (and then exactly when it is
  not the empty string). It then returns the success message.
\<close>

theorem write_back_sequence:
  assumes ok: "\<And>t ch. children_append env t pid ch = None"
  shows "write_back env pid result tr =
     (Inr success_message,
      tr @ map (AppendChildren pid)
        ([[Divider], [Heading2 refined_heading]]
         @ (case refined_notes result of
              None \<Rightarrow> []
            | Some r \<Rightarrow> if r = [] then [] else [[Paragraph (take 2000 r)]])
         @ [[Heading2 diagram_heading]]
         @ (case mermaid_code result of
              None \<Rightarrow> []
            | Some d \<Rightarrow> if d = [] then [] else [[Code d (ascii ''mermaid'')]])))"
  by (simp add: write_back_def io_defs ok Let_def split: option.splits)

text \<open>The five appends for a state with short refined notes and a diagram.\<close>

theorem write_back_sequence_witness:
  "write_back sample_env (ascii ''p1'') sample_result [] =
     (Inr success_message,
      [AppendChildren (ascii ''p1'') [Divider],
       AppendChildren (ascii ''p1'') [Heading2 refined_heading],
       AppendChildren (ascii ''p1'') [Paragraph (ascii ''# Hello'')],
       AppendChildren (ascii ''p1'') [Heading2 diagram_heading],
       AppendChildren (ascii ''p1'') [Code (ascii ''graph TD'') (ascii ''mermaid'')]])"
proof -
  have ok: "\<And>t ch. children_append sample_env t (ascii ''p1'') ch = None"
    by (simp add: sample_env_def fixed_env_def)
  show ?thesis
    using write_back_sequence [of sample_env "ascii ''p1''" sample_result "[]", OF ok]
    by (simp add: sample_result_def ascii_def)
qed

text \<open>
  An append call that raises ends the phase: the calls issued are always a beginning of
  the same sequence.
\<close>

lemma write_back_prefix:
  "prefix (snd (write_back env pid result tr))
     (tr @ map (AppendChildren pid)
        ([[Divider], [Heading2 refined_heading]]
         @ (case refined_notes result of
              None \<Rightarrow> []
            | Some r \<Rightarrow> if r = [] then [] else [[Paragraph (take 2000 r)]])
         @ [[Heading2 diagram_heading]]
         @ (case mermaid_code result of
              None \<Rightarrow> []
            | Some d \<Rightarrow> if d = [] then [] else [[Code d (ascii ''mermaid'')]])))"
  by (simp add: write_back_def io_defs Let_def split: option.splits)

text \<open>
  C3. For refined notes \<open>r\<close> of length \<open>L > 0\<close>, once the divider and the first heading
  are appended the third append is a paragraph holding \<open>take 2000 r\<close>: the first 2000
  characters when \<open>L > 2000\<close>, the whole of \<open>r\<close> when \<open>L \<le> 2000\<close>.
\<close>

theorem paragraph_truncation:
  assumes "refined_notes result = Some r" and "r \<noteq> []"
    and "children_append env tr pid [Divider] = None"
    and "children_append env (tr @ [AppendChildren pid [Divider]]) pid
           [Heading2 refined_heading] = None"
  shows "(\<exists>rest. snd (write_back env pid result tr) =
            tr @ [AppendChildren pid [Divider], AppendChildren pid [Heading2 refined_heading],
                  AppendChildren pid [Paragraph (take 2000 r)]] @ rest) \<and>
         (2000 < length r \<longrightarrow> length (take 2000 r) = 2000) \<and>
         (length r \<le> 2000 \<longrightarrow> take 2000 r = r)"
  using assms
  by (simp add: write_back_def io_defs Let_def split: option.splits)

text \<open>Refined notes of 2001 characters: the paragraph holds 2000 of them.\<close>

theorem paragraph_truncation_witness:
  "(\<exists>rest. snd (write_back sample_env (ascii ''p1'') long_result []) =
            [AppendChildren (ascii ''p1'') [Divider],
             AppendChildren (ascii ''p1'') [Heading2 refined_heading],
             AppendChildren (ascii ''p1'') [Paragraph (replicate 2000 120)]] @ rest) \<and>
   2000 < length (replicate 2001 (120::nat)) \<and>
   length (take 2000 (replicate 2001 (120::nat))) = 2000"
proof -
  have 1: "refined_notes long_result = Some (replicate 2001 120)"
    by (simp add: long_result_def)
  have 2: "replicate 2001 (120::nat) \<noteq> []"
    by simp
  have 3: "children_append sample_env [] (ascii ''p1'') [Divider] = None"
    by (simp add: sample_env_def fixed_env_def)
  have 4: "children_append sample_env ([] @ [AppendChildren (ascii ''p1'') [Divider]]) (ascii ''p1'')
           [Heading2 refined_heading] = None"
    by (simp add: sample_env_def fixed_env_def)
  have 5: "take 2000 (replicate 2001 (120::nat)) = replicate 2000 120"
    by simp
  show ?thesis
    using paragraph_truncation [OF 1 2 3 4] unfolding 5 by simp
qed

subsection \<open>The input of the diagram step\<close>

text \<open>
  C4, as the code has it. The diagram step calls the model once, on the prompt built from
  \<open>refined_notes\<close> when that is present and not the empty string, and from \<open>raw_notes\<close>
  otherwise (absent or empty). In the workflow, where the refiner answered \<open>c\<close>, the
  diagram step's text is \<open>c\<close> unless \<open>c\<close> is empty.
\<close>

theorem diagram_input_text:
  "snd (generate_diagram_node env state tr) =
     tr @ [LlmInvoke (diagram_prompt
             (case refined_notes state of
                None \<Rightarrow> raw_notes state
              | Some r \<Rightarrow> if r = [] then raw_notes state else r))] \<and>
   (llm_invoke env tr (rewrite_prompt raw) = Inr c \<longrightarrow>
      snd (app_invoke env
             \<lparr>raw_notes = raw, refined_notes = None, mermaid_code = None, page_id = pid\<rparr> tr) =
      tr @ [LlmInvoke (rewrite_prompt raw),
            LlmInvoke (diagram_prompt (if c = [] then raw else c))])"
  by (simp add: generate_diagram_node_def rewrite_notes_node_def app_invoke_def
      diagram_content_def apply_update_def io_defs Let_def split: sum.splits option.splits)

text \<open>
  The state with raw notes \<^verbatim>\<open>X\<close> and refined notes \<^verbatim>\<open>Y\<close>: the diagram step reads
  \<^verbatim>\<open>Y\<close>.
\<close>

theorem diagram_input_text_witness:
  "snd (generate_diagram_node sample_env
          \<lparr>raw_notes = ascii ''X'', refined_notes = Some (ascii ''Y''), mermaid_code = None,
           page_id = ascii ''p1''\<rparr> []) =
     [LlmInvoke (diagram_prompt (ascii ''Y''))] \<and>
   llm_invoke sample_env [] (rewrite_prompt (ascii ''X'')) = Inr (ascii ''graph TD'') \<and>
   snd (app_invoke sample_env
          \<lparr>raw_notes = ascii ''X'', refined_notes = None, mermaid_code = None,
           page_id = ascii ''p1''\<rparr> []) =
     [LlmInvoke (rewrite_prompt (ascii ''X'')), LlmInvoke (diagram_prompt (ascii ''graph TD''))]"
proof -
  have 1: "llm_invoke sample_env [] (rewrite_prompt (ascii ''X'')) = Inr (ascii ''graph TD'')"
    by (simp add: sample_env_def fixed_env_def)
  have 2: "ascii ''Y'' \<noteq> []" "ascii ''graph TD'' \<noteq> []"
    by (simp_all add: ascii_def)
  show ?thesis
    using 1 2 diagram_input_text [of sample_env
      "\<lparr>raw_notes = ascii ''X'', refined_notes = Some (ascii ''Y''), mermaid_code = None,
           page_id = ascii ''p1''\<rparr>" "[]" "ascii ''X''" "ascii ''graph TD''" "ascii ''p1''"]
    by simp
qed

text \<open>
  C4 as it is stated fails: with raw notes \<^verbatim>\<open>X\<close> and refined notes present but empty,
  the diagram step reads \<^verbatim>\<open>X\<close>, not the refined notes.
\<close>

theorem diagram_input_counterexample:
  "refined_notes \<lparr>raw_notes = ascii ''X'', refined_notes = Some [], mermaid_code = None,
                  page_id = ascii ''p1''\<rparr> = Some [] \<and>
   snd (generate_diagram_node sample_env
          \<lparr>raw_notes = ascii ''X'', refined_notes = Some [], mermaid_code = None,
           page_id = ascii ''p1''\<rparr> []) =
     [LlmInvoke (diagram_prompt (ascii ''X''))] \<and>
   diagram_prompt (ascii ''X'') \<noteq> diagram_prompt []"
proof -
  have "diagram_prompt (ascii ''X'') \<noteq> diagram_prompt []"
    by (simp add: diagram_prompt_def ascii_def)
  then show ?thesis
    by (simp add: generate_diagram_node_def diagram_content_def io_defs sample_env_def
        fixed_env_def)
qed

subsection \<open>Empty pages\<close>

lemma strip_all_space:
  assumes "\<forall>c\<in>set s. is_space c"
  shows "strip s = []"
  using assms by (auto simp add: strip_def dest: set_dropWhileD)

lemma join_all_space:
  "\<forall>c\<in>set sep. is_space c \<Longrightarrow> \<forall>t\<in>set parts. \<forall>c\<in>set t. is_space c \<Longrightarrow>
   \<forall>c\<in>set (join sep parts). is_space c"
  by (induction sep parts rule: join.induct) auto

lemma paragraph_parts_none:
  "\<forall>b\<in>set blocks. block_type b \<noteq> ascii ''paragraph'' \<Longrightarrow> paragraph_parts blocks = []"
  by (induction blocks) auto

lemma warning_not_error: "\<not> prefix (ascii ''Error'') empty_page_warning"
  by (simp add: empty_page_warning_def ascii_def)

lemma process_empty:
  assumes "children_list env tr pid = Inr blocks"
    and "strip (join (ascii ''\<newline>'') (paragraph_parts blocks)) = []"
  shows "process_research_page env (PageContext pid) tr
           = (Inr empty_page_warning, tr @ [ListChildren pid])"
  using assms by (simp add: process_research_page_def read_raw_text_def io_defs)

text \<open>
  C5. When the listing succeeds and the extracted text is empty, \<open>process_research_page\<close>
  returns the empty-content warning as an ordinary result: it does not raise, the warning
  does not begin with \<^verbatim>\<open>Error\<close>, and the only remote call made is the listing, so the
  workflow never starts and nothing is appended. The extracted text is empty for a page
  with no block and for a page with no block of type \<open>paragraph\<close>.
\<close>

theorem empty_extraction_warning:
  "(children_list env tr pid = Inr blocks \<and> join (ascii ''\<newline>'') (paragraph_parts blocks) = [] \<longrightarrow>
      process_research_page env (PageContext pid) tr
        = (Inr empty_page_warning, tr @ [ListChildren pid])) \<and>
   \<not> prefix (ascii ''Error'') empty_page_warning \<and>
   (blocks = [] \<or> (\<forall>b\<in>set blocks. block_type b \<noteq> ascii ''paragraph'') \<longrightarrow>
      join (ascii ''\<newline>'') (paragraph_parts blocks) = [])"
proof -
  have "strip [] = []" by (simp add: strip_def)
  then have 1: "children_list env tr pid = Inr blocks \<and> join (ascii ''\<newline>'') (paragraph_parts blocks) = [] \<longrightarrow>
      process_research_page env (PageContext pid) tr
        = (Inr empty_page_warning, tr @ [ListChildren pid])"
    using process_empty [of env tr pid blocks] by auto
  have 2: "blocks = [] \<or> (\<forall>b\<in>set blocks. block_type b \<noteq> ascii ''paragraph'') \<longrightarrow>
      join (ascii ''\<newline>'') (paragraph_parts blocks) = []"
    using paragraph_parts_none [of blocks] by auto
  show ?thesis using 1 2 warning_not_error by blast
qed

text \<open>A page with no block, and a page holding only a divider.\<close>

theorem empty_extraction_warning_witness:
  "children_list (fixed_env (Inr []) None (Inl (Exception (ascii ''down'')))) [] (ascii ''p1'') = Inr [] \<and>
   process_research_page (fixed_env (Inr []) None (Inl (Exception (ascii ''down''))))
       (PageContext (ascii ''p1'')) []
     = (Inr empty_page_warning, [ListChildren (ascii ''p1'')]) \<and>
   join (ascii ''\<newline>'') (paragraph_parts [Block (ascii ''divider'') []]) = []"
proof -
  have 1: "children_list (fixed_env (Inr []) None (Inl (Exception (ascii ''down'')))) []
             (ascii ''p1'') = Inr []"
    by (simp add: fixed_env_def)
  have 2: "join (ascii ''\<newline>'') (paragraph_parts []) = []"
    by simp
  have 3: "\<forall>b\<in>set [Block (ascii ''divider'') []]. block_type b \<noteq> ascii ''paragraph''"
    by (simp add: ascii_def)
  show ?thesis
    using 1 2 3
      empty_extraction_warning [of "fixed_env (Inr []) None (Inl (Exception (ascii ''down'')))"
        "[]" "ascii ''p1''" "[]"]
      empty_extraction_warning [of "fixed_env (Inr []) None (Inl (Exception (ascii ''down'')))"
        "[]" "ascii ''p1''" "[Block (ascii ''divider'') []]"]
    by simp
qed

text \<open>
  C9. When every text run of the page's paragraphs consists of whitespace characters only,
  \<open>process_research_page\<close> returns the empty-content warning after the listing alone:
  the test is on the stripped text.
\<close>

theorem whitespace_only_warning:
  assumes "children_list env tr pid = Inr blocks"
    and "\<forall>t\<in>set (paragraph_parts blocks). \<forall>c\<in>set t. is_space c"
  shows "process_research_page env (PageContext pid) tr
           = (Inr empty_page_warning, tr @ [ListChildren pid])"
proof -
  have "\<forall>c\<in>set (ascii ''\<newline>''). is_space c"
    by (simp add: ascii_def is_space_def)
  then have "\<forall>c\<in>set (join (ascii ''\<newline>'') (paragraph_parts blocks)). is_space c"
    using assms(2) by (rule join_all_space)
  then have "strip (join (ascii ''\<newline>'') (paragraph_parts blocks)) = []"
    by (rule strip_all_space)
  with assms(1) show ?thesis by (rule process_empty)
qed

text \<open>A paragraph whose runs are two spaces and a tab.\<close>

theorem whitespace_only_warning_witness:
  "process_research_page
     (fixed_env (Inr [Block (ascii ''paragraph'') [ascii ''  '', [9]]]) None
        (Inl (Exception (ascii ''down''))))
     (PageContext (ascii ''p1'')) []
   = (Inr empty_page_warning, [ListChildren (ascii ''p1'')])"
proof -
  have 1: "children_list
     (fixed_env (Inr [Block (ascii ''paragraph'') [ascii ''  '', [9]]]) None
        (Inl (Exception (ascii ''down'')))) [] (ascii ''p1'')
     = Inr [Block (ascii ''paragraph'') [ascii ''  '', [9]]]"
    by (simp add: fixed_env_def)
  have 2: "\<forall>t\<in>set (paragraph_parts [Block (ascii ''paragraph'') [ascii ''  '', [9]]]).
             \<forall>c\<in>set t. is_space c"
    by (simp add: ascii_def is_space_def)
  show ?thesis
    using whitespace_only_warning [OF 1 2] by simp
qed

subsection \<open>The HTTP surface\<close>

lemma get_page_content_returns:
  "\<exists>s tr'. get_page_content env ctx tr = (Inr s, tr')"
  by (simp add: get_page_content_def io_defs Let_def split: prod.splits sum.splits)

lemma process_research_page_returns:
  "\<exists>s tr'. process_research_page env ctx tr = (Inr s, tr')"
  by (simp add: process_research_page_def io_defs Let_def split: prod.splits sum.splits)

lemma combine_returns:
  "\<exists>s tr'. combine_architecture_diagrams env ctx tr = (Inr s, tr')"
  by (simp add: combine_architecture_diagrams_def io_defs Let_def split: prod.splits sum.splits list.splits)

lemma encodable_append [simp]: "encodable (a @ b) \<longleftrightarrow> encodable a \<and> encodable b"
  by (simp add: encodable_def)

lemma encodable_keys [simp]:
  "encodable (ascii ''detail'')" "encodable (ascii ''page_id'')" "encodable (ascii ''content'')"
  "encodable (ascii ''result'')" "encodable (ascii ''title'')"
  "encodable (ascii ''combined_diagram'')"
  by (simp_all add: encodable_def ascii_def)

lemma handler_outcome:
  assumes "operation tr = (Inr result, tr')"
  shows "io_bind operation
           (\<lambda>result. io_bind (raise_if_error result) (\<lambda>_. io_return (obj result))) tr
    = (if prefix (ascii ''Error'') result then Inl (HTTPException 400 result)
       else Inr (obj result), tr')"
  using assms by (simp add: raise_if_error_def io_defs)

lemma get_page_content_list_error:
  "children_list env tr pid = Inl e \<Longrightarrow>
   get_page_content env (PageContext pid) tr
     = (Inr (ascii ''Error reading Notion: '' @ str_exn e), tr @ [ListChildren pid])"
  by (simp add: get_page_content_def io_defs)

text \<open>
  C6, as the code has it. Each of the three operations returns a string and never raises.
  For that string \<open>result\<close>, the endpoint's handler raises an \<open>HTTPException\<close> of status
  400 with \<open>result\<close> as the detail if \<open>result\<close> begins with \<^verbatim>\<open>Error\<close>, and returns
  the object holding \<open>result\<close> otherwise. When the strings of the body can be encoded
  (they hold no surrogate code point) the answer is status 400 with the detail in the
  first case and status 200 with the object in the second, so the status is 400 exactly
  when the string begins with \<^verbatim>\<open>Error\<close>. When \<open>result\<close> cannot be encoded the answer
  is status 500 in both cases.
\<close>

theorem http_error_mapping:
  "(\<exists>result tr'. get_page_content env (PageContext pid) tr = (Inr result, tr') \<and>
      get_content env pid tr =
        (if prefix (ascii ''Error'') result then Inl (HTTPException 400 result)
         else Inr [(ascii ''page_id'', pid), (ascii ''content'', result)], tr') \<and>
      (encodable pid \<and> encodable result \<longrightarrow>
         serve (get_content env pid) tr =
           (if prefix (ascii ''Error'') result then JSONResponse 400 [(ascii ''detail'', result)]
            else JSONResponse 200 [(ascii ''page_id'', pid), (ascii ''content'', result)], tr') \<and>
         status (fst (serve (get_content env pid) tr)) =
           (if prefix (ascii ''Error'') result then 400 else 200)) \<and>
      (\<not> encodable result \<longrightarrow> serve (get_content env pid) tr = (ServerError 500, tr'))) \<and>
   (\<exists>result tr'. process_research_page env (PageContext pid) tr = (Inr result, tr') \<and>
      process_page env pid tr =
        (if prefix (ascii ''Error'') result then Inl (HTTPException 400 result)
         else Inr [(ascii ''page_id'', pid), (ascii ''result'', result)], tr') \<and>
      (encodable pid \<and> encodable result \<longrightarrow>
         serve (process_page env pid) tr =
           (if prefix (ascii ''Error'') result then JSONResponse 400 [(ascii ''detail'', result)]
            else JSONResponse 200 [(ascii ''page_id'', pid), (ascii ''result'', result)], tr') \<and>
         status (fst (serve (process_page env pid) tr)) =
           (if prefix (ascii ''Error'') result then 400 else 200)) \<and>
      (\<not> encodable result \<longrightarrow> serve (process_page env pid) tr = (ServerError 500, tr'))) \<and>
   (\<exists>result tr'. combine_architecture_diagrams env request tr = (Inr result, tr') \<and>
      combine_diagrams env request tr =
        (if prefix (ascii ''Error'') result then Inl (HTTPException 400 result)
         else Inr [(ascii ''title'', title request), (ascii ''combined_diagram'', result)], tr') \<and>
      (encodable (title request) \<and> encodable result \<longrightarrow>
         serve (combine_diagrams env request) tr =
           (if prefix (ascii ''Error'') result then JSONResponse 400 [(ascii ''detail'', result)]
            else JSONResponse 200
                   [(ascii ''title'', title request), (ascii ''combined_diagram'', result)], tr') \<and>
         status (fst (serve (combine_diagrams env request) tr)) =
           (if prefix (ascii ''Error'') result then 400 else 200)) \<and>
      (\<not> encodable result \<longrightarrow>
         serve (combine_diagrams env request) tr = (ServerError 500, tr')))"
proof -
  obtain r1 t1 where 1: "get_page_content env (PageContext pid) tr = (Inr r1, t1)"
    using get_page_content_returns by blast
  obtain r2 t2 where 2: "process_research_page env (PageContext pid) tr = (Inr r2, t2)"
    using process_research_page_returns by blast
  obtain r3 t3 where 3: "combine_architecture_diagrams env request tr = (Inr r3, t3)"
    using combine_returns by blast
  have a: "get_content env pid tr =
        (if prefix (ascii ''Error'') r1 then Inl (HTTPException 400 r1)
         else Inr [(ascii ''page_id'', pid), (ascii ''content'', r1)], t1)"
    unfolding get_content_def using 1 by (rule handler_outcome)
  have b: "process_page env pid tr =
        (if prefix (ascii ''Error'') r2 then Inl (HTTPException 400 r2)
         else Inr [(ascii ''page_id'', pid), (ascii ''result'', r2)], t2)"
    unfolding process_page_def using 2 by (rule handler_outcome)
  have c: "combine_diagrams env request tr =
        (if prefix (ascii ''Error'') r3 then Inl (HTTPException 400 r3)
         else Inr [(ascii ''title'', title request), (ascii ''combined_diagram'', r3)], t3)"
    unfolding combine_diagrams_def using 3 by (rule handler_outcome)
  have a1: "encodable pid \<and> encodable r1 \<longrightarrow>
         serve (get_content env pid) tr =
           (if prefix (ascii ''Error'') r1 then JSONResponse 400 [(ascii ''detail'', r1)]
            else JSONResponse 200 [(ascii ''page_id'', pid), (ascii ''content'', r1)], t1) \<and>
         status (fst (serve (get_content env pid) tr)) =
           (if prefix (ascii ''Error'') r1 then 400 else 200)"
    by (simp add: serve_def a encodable_object_def)
  have b1: "encodable pid \<and> encodable r2 \<longrightarrow>
         serve (process_page env pid) tr =
           (if prefix (ascii ''Error'') r2 then JSONResponse 400 [(ascii ''detail'', r2)]
            else JSONResponse 200 [(ascii ''page_id'', pid), (ascii ''result'', r2)], t2) \<and>
         status (fst (serve (process_page env pid) tr)) =
           (if prefix (ascii ''Error'') r2 then 400 else 200)"
    by (simp add: serve_def b encodable_object_def)
  have c1: "encodable (title request) \<and> encodable r3 \<longrightarrow>
         serve (combine_diagrams env request) tr =
           (if prefix (ascii ''Error'') r3 then JSONResponse 400 [(ascii ''detail'', r3)]
            else JSONResponse 200
                   [(ascii ''title'', title request), (ascii ''combined_diagram'', r3)], t3) \<and>
         status (fst (serve (combine_diagrams env request) tr)) =
           (if prefix (ascii ''Error'') r3 then 400 else 200)"
    by (simp add: serve_def c encodable_object_def)
  have a2: "\<not> encodable r1 \<longrightarrow> serve (get_content env pid) tr = (ServerError 500, t1)"
    by (simp add: serve_def a encodable_object_def)
  have b2: "\<not> encodable r2 \<longrightarrow> serve (process_page env pid) tr = (ServerError 500, t2)"
    by (simp add: serve_def b encodable_object_def)
  have c2: "\<not> encodable r3 \<longrightarrow> serve (combine_diagrams env request) tr = (ServerError 500, t3)"
    by (simp add: serve_def c encodable_object_def)
  show ?thesis
    using 1 2 3 a b c a1 b1 c1 a2 b2 c2 by blast
qed

text \<open>
  A store that fails on listing (400), an empty page (the warning, 200), and a single
  diagram whose code begins with \<^verbatim>\<open>Error\<close> (returned as it is, hence 400).
\<close>

theorem http_error_mapping_witness:
  "serve (get_content (fixed_env (Inl (Exception (ascii ''boom''))) None (Inr [])) (ascii ''p1'')) []
     = (JSONResponse 400 [(ascii ''detail'', ascii ''Error reading Notion: boom'')],
        [ListChildren (ascii ''p1'')]) \<and>
   serve (process_page (fixed_env (Inr []) None (Inr [])) (ascii ''p1'')) []
     = (JSONResponse 200 [(ascii ''page_id'', ascii ''p1''), (ascii ''result'', empty_page_warning)],
        [ListChildren (ascii ''p1'')]) \<and>
   serve (combine_diagrams (fixed_env (Inr []) None (Inr []))
            (CombineDiagramsContext [DiagramInput (ascii ''A'') (ascii ''Error: a-->b'')] (ascii ''T''))) []
     = (JSONResponse 400 [(ascii ''detail'', ascii ''Error: a-->b'')], [])"
proof -
  have 1: "get_page_content (fixed_env (Inl (Exception (ascii ''boom''))) None (Inr []))
             (PageContext (ascii ''p1'')) []
           = (Inr (ascii ''Error reading Notion: boom''), [ListChildren (ascii ''p1'')])"
    by (simp add: get_page_content_list_error fixed_env_def ascii_def)
  have 2: "process_research_page (fixed_env (Inr []) None (Inr [])) (PageContext (ascii ''p1'')) []
           = (Inr empty_page_warning, [ListChildren (ascii ''p1'')])"
    using process_empty [of "fixed_env (Inr []) None (Inr [])" "[]" "ascii ''p1''" "[]"]
    by (simp add: fixed_env_def strip_def)
  have 3: "combine_architecture_diagrams (fixed_env (Inr []) None (Inr []))
            (CombineDiagramsContext [DiagramInput (ascii ''A'') (ascii ''Error: a-->b'')] (ascii ''T'')) []
           = (Inr (ascii ''Error: a-->b''), [])"
    by (simp add: combine_architecture_diagrams_def io_return_def)
  have 4: "prefix (ascii ''Error'') (ascii ''Error reading Notion: boom'')"
    by (simp add: ascii_def)
  have 5: "prefix (ascii ''Error'') (ascii ''Error: a-->b'')"
    by (simp add: ascii_def)
  have 6: "encodable (ascii ''p1'')" "encodable (ascii ''T'')"
    "encodable (ascii ''Error reading Notion: boom'')" "encodable (ascii ''Error: a-->b'')"
    "encodable empty_page_warning"
    by (simp_all add: encodable_def ascii_def empty_page_warning_def)
  have a: "serve (get_content (fixed_env (Inl (Exception (ascii ''boom''))) None (Inr [])) (ascii ''p1'')) []
     = (JSONResponse 400 [(ascii ''detail'', ascii ''Error reading Notion: boom'')],
        [ListChildren (ascii ''p1'')])"
    using http_error_mapping [of "fixed_env (Inl (Exception (ascii ''boom''))) None (Inr [])"
        "ascii ''p1''" "[]"] 1 4 6
    by auto
  have b: "serve (process_page (fixed_env (Inr []) None (Inr [])) (ascii ''p1'')) []
     = (JSONResponse 200 [(ascii ''page_id'', ascii ''p1''), (ascii ''result'', empty_page_warning)],
        [ListChildren (ascii ''p1'')])"
    using http_error_mapping [of "fixed_env (Inr []) None (Inr [])" "ascii ''p1''" "[]"] 2
      warning_not_error 6
    by auto
  have c: "serve (combine_diagrams (fixed_env (Inr []) None (Inr []))
            (CombineDiagramsContext [DiagramInput (ascii ''A'') (ascii ''Error: a-->b'')] (ascii ''T''))) []
     = (JSONResponse 400 [(ascii ''detail'', ascii ''Error: a-->b'')], [])"
    using http_error_mapping [of "fixed_env (Inr []) None (Inr [])" "ascii ''p1''" "[]"
        "CombineDiagramsContext [DiagramInput (ascii ''A'') (ascii ''Error: a-->b'')] (ascii ''T'')"] 3 5 6
    by auto
  show ?thesis using a b c by blast
qed

text \<open>
  C6 as it is stated fails: a page whose one paragraph run is the single code point U+D800
  is read as that string, which does not begin with \<^verbatim>\<open>Error\<close>, and the answer of
  \<^verbatim>\<open>GET /content\<close> is status 500, not 200.
\<close>

theorem http_status_counterexample:
  "get_page_content (fixed_env (Inr [Block (ascii ''paragraph'') [[0xD800]]]) None (Inr []))
     (PageContext (ascii ''p1'')) []
     = (Inr [0xD800], [ListChildren (ascii ''p1'')]) \<and>
   \<not> prefix (ascii ''Error'') [0xD800] \<and>
   serve (get_content (fixed_env (Inr [Block (ascii ''paragraph'') [[0xD800]]]) None (Inr []))
            (ascii ''p1'')) []
     = (ServerError 500, [ListChildren (ascii ''p1'')])"
proof -
  have 1: "get_page_content (fixed_env (Inr [Block (ascii ''paragraph'') [[0xD800]]]) None (Inr []))
     (PageContext (ascii ''p1'')) []
     = (Inr [0xD800], [ListChildren (ascii ''p1'')])"
    by (simp add: get_page_content_def io_defs fixed_env_def)
  have 2: "\<not> prefix (ascii ''Error'') [0xD800]"
    by (simp add: ascii_def)
  have 3: "\<not> encodable [0xD800]"
    by (simp add: encodable_def)
  have 4: "get_content (fixed_env (Inr [Block (ascii ''paragraph'') [[0xD800]]]) None (Inr []))
            (ascii ''p1'') []
     = (if prefix (ascii ''Error'') [0xD800] then Inl (HTTPException 400 [0xD800])
        else Inr [(ascii ''page_id'', ascii ''p1''), (ascii ''content'', [0xD800])],
        [ListChildren (ascii ''p1'')])"
    unfolding get_content_def using 1 by (rule handler_outcome)
  have "serve (get_content (fixed_env (Inr [Block (ascii ''paragraph'') [[0xD800]]]) None (Inr []))
            (ascii ''p1'')) []
     = (ServerError 500, [ListChildren (ascii ''p1'')])"
    using 2 3 by (simp add: serve_def 4 encodable_object_def)
  then show ?thesis using 1 2 by simp
qed

subsection \<open>The state of the workflow\<close>

lemma write_key_keeps_refined:
  "refined_notes s \<noteq> None \<Longrightarrow> refined_notes (write_key s kv) \<noteq> None"
  by (cases kv; cases "fst kv") auto

lemma write_key_keeps_mermaid:
  "mermaid_code s \<noteq> None \<Longrightarrow> mermaid_code (write_key s kv) \<noteq> None"
  by (cases kv; cases "fst kv") auto

lemma apply_update_keeps_refined:
  "refined_notes s \<noteq> None \<Longrightarrow> refined_notes (apply_update s u) \<noteq> None"
  unfolding apply_update_def
proof (induction u arbitrary: s)
  case Nil
  then show ?case by simp
next
  case (Cons kv u)
  have "refined_notes (write_key s kv) \<noteq> None"
    using Cons.prems by (rule write_key_keeps_refined)
  then have "refined_notes (foldl write_key (write_key s kv) u) \<noteq> None"
    by (rule Cons.IH)
  then show ?case by simp
qed

lemma apply_update_keeps_mermaid:
  "mermaid_code s \<noteq> None \<Longrightarrow> mermaid_code (apply_update s u) \<noteq> None"
  unfolding apply_update_def
proof (induction u arbitrary: s)
  case Nil
  then show ?case by simp
next
  case (Cons kv u)
  have "mermaid_code (write_key s kv) \<noteq> None"
    using Cons.prems by (rule write_key_keeps_mermaid)
  then have "mermaid_code (foldl write_key (write_key s kv) u) \<noteq> None"
    by (rule Cons.IH)
  then show ?case by simp
qed

lemma rewrite_notes_node_update:
  assumes "rewrite_notes_node env s tr = (Inr u, tr')"
  shows "map fst u = [Key_refined_notes] \<and> refined_notes (apply_update s u) \<noteq> None \<and>
         mermaid_code (apply_update s u) = mermaid_code s \<and>
         raw_notes (apply_update s u) = raw_notes s"
  using assms
  by (auto simp add: rewrite_notes_node_def apply_update_def io_defs split: sum.splits)

lemma generate_diagram_node_update:
  assumes "generate_diagram_node env s tr = (Inr u, tr')"
  shows "map fst u = [Key_mermaid_code] \<and> mermaid_code (apply_update s u) \<noteq> None \<and>
         refined_notes (apply_update s u) = refined_notes s \<and>
         raw_notes (apply_update s u) = raw_notes s"
  using assms
  by (auto simp add: generate_diagram_node_def apply_update_def io_defs split: sum.splits)

lemma app_invoke_steps:
  assumes "app_invoke env s tr = (Inr result, tr')"
  shows "\<exists>u1 t1 u2. rewrite_notes_node env s tr = (Inr u1, t1) \<and>
           generate_diagram_node env (apply_update s u1) t1 = (Inr u2, tr') \<and>
           result = apply_update (apply_update s u1) u2"
proof -
  obtain r1 t1 where 1: "rewrite_notes_node env s tr = (r1, t1)"
    by (cases "rewrite_notes_node env s tr")
  show ?thesis
  proof (cases r1)
    case (Inl e)
    then show ?thesis using assms 1 by (simp add: app_invoke_def io_bind_def)
  next
    case (Inr u1)
    obtain r2 t2 where 2: "generate_diagram_node env (apply_update s u1) t1 = (r2, t2)"
      by (cases "generate_diagram_node env (apply_update s u1) t1")
    show ?thesis
    proof (cases r2)
      case (Inl e)
      then show ?thesis
        using assms 1 2 Inr by (simp add: app_invoke_def io_bind_def Let_def)
    next
      case u2: (Inr u2)
      then show ?thesis
        using assms 1 2 Inr
        by (simp add: app_invoke_def io_bind_def io_return_def Let_def)
    qed
  qed
qed

text \<open>
  C8. The refiner returns an update of the one key \<open>refined_notes\<close>: merged into the
  state it sets \<open>refined_notes\<close> and leaves \<open>mermaid_code\<close> as it was. The diagram step
  returns an update of the one key \<open>mermaid_code\<close>: merged, it sets \<open>mermaid_code\<close> and
  leaves \<open>refined_notes\<close> as it was. No update makes a field that is set absent again.
  A run of the workflow that returns is the refiner, then the diagram step on the merged
  state; after the refiner \<open>mermaid_code\<close> is still what it was at the start (absent, for
  the state \<open>process_research_page\<close> builds), and in the result both fields are set, with
  \<open>refined_notes\<close> the value the refiner gave.
\<close>

theorem pipeline_state_invariant:
  "(\<forall>u tr'. rewrite_notes_node env s tr = (Inr u, tr') \<longrightarrow>
      map fst u = [Key_refined_notes] \<and> refined_notes (apply_update s u) \<noteq> None \<and>
      mermaid_code (apply_update s u) = mermaid_code s) \<and>
   (\<forall>u tr'. generate_diagram_node env s tr = (Inr u, tr') \<longrightarrow>
      map fst u = [Key_mermaid_code] \<and> mermaid_code (apply_update s u) \<noteq> None \<and>
      refined_notes (apply_update s u) = refined_notes s) \<and>
   (\<forall>u. refined_notes s \<noteq> None \<longrightarrow> refined_notes (apply_update s u) \<noteq> None) \<and>
   (\<forall>u. mermaid_code s \<noteq> None \<longrightarrow> mermaid_code (apply_update s u) \<noteq> None) \<and>
   (\<forall>result tr'. app_invoke env s tr = (Inr result, tr') \<longrightarrow>
      (\<exists>u1 t1 u2. rewrite_notes_node env s tr = (Inr u1, t1) \<and>
         generate_diagram_node env (apply_update s u1) t1 = (Inr u2, tr') \<and>
         result = apply_update (apply_update s u1) u2 \<and>
         mermaid_code (apply_update s u1) = mermaid_code s \<and>
         refined_notes (apply_update s u1) \<noteq> None \<and>
         refined_notes result = refined_notes (apply_update s u1) \<and>
         mermaid_code result \<noteq> None))"
proof -
  have 5: "\<forall>result tr'. app_invoke env s tr = (Inr result, tr') \<longrightarrow>
      (\<exists>u1 t1 u2. rewrite_notes_node env s tr = (Inr u1, t1) \<and>
         generate_diagram_node env (apply_update s u1) t1 = (Inr u2, tr') \<and>
         result = apply_update (apply_update s u1) u2 \<and>
         mermaid_code (apply_update s u1) = mermaid_code s \<and>
         refined_notes (apply_update s u1) \<noteq> None \<and>
         refined_notes result = refined_notes (apply_update s u1) \<and>
         mermaid_code result \<noteq> None)"
  proof (intro allI impI)
    fix result tr'
    assume a: "app_invoke env s tr = (Inr result, tr')"
    from app_invoke_steps [OF a] obtain u1 t1 u2 where
      1: "rewrite_notes_node env s tr = (Inr u1, t1)" and
      2: "generate_diagram_node env (apply_update s u1) t1 = (Inr u2, tr')" and
      3: "result = apply_update (apply_update s u1) u2"
      by blast
    show "\<exists>u1 t1 u2. rewrite_notes_node env s tr = (Inr u1, t1) \<and>
         generate_diagram_node env (apply_update s u1) t1 = (Inr u2, tr') \<and>
         result = apply_update (apply_update s u1) u2 \<and>
         mermaid_code (apply_update s u1) = mermaid_code s \<and>
         refined_notes (apply_update s u1) \<noteq> None \<and>
         refined_notes result = refined_notes (apply_update s u1) \<and>
         mermaid_code result \<noteq> None"
      using 1 2 3 rewrite_notes_node_update [OF 1] generate_diagram_node_update [OF 2]
      by blast
  qed
  show ?thesis
    using 5 rewrite_notes_node_update [of env s tr] generate_diagram_node_update [of env s tr]
      apply_update_keeps_refined [of s] apply_update_keeps_mermaid [of s]
    by blast
qed

text \<open>The refiner on the initial state with raw notes \<^verbatim>\<open>X\<close>.\<close>

theorem pipeline_state_invariant_witness:
  "rewrite_notes_node sample_env
     \<lparr>raw_notes = ascii ''X'', refined_notes = None, mermaid_code = None, page_id = ascii ''p1''\<rparr> []
     = (Inr [(Key_refined_notes, ascii ''graph TD'')], [LlmInvoke (rewrite_prompt (ascii ''X''))]) \<and>
   refined_notes (apply_update
     \<lparr>raw_notes = ascii ''X'', refined_notes = None, mermaid_code = None, page_id = ascii ''p1''\<rparr>
     [(Key_refined_notes, ascii ''graph TD'')]) \<noteq> None \<and>
   mermaid_code (apply_update
     \<lparr>raw_notes = ascii ''X'', refined_notes = None, mermaid_code = None, page_id = ascii ''p1''\<rparr>
     [(Key_refined_notes, ascii ''graph TD'')]) = None"
proof -
  have 1: "rewrite_notes_node sample_env
     \<lparr>raw_notes = ascii ''X'', refined_notes = None, mermaid_code = None, page_id = ascii ''p1''\<rparr> []
     = (Inr [(Key_refined_notes, ascii ''graph TD'')], [LlmInvoke (rewrite_prompt (ascii ''X''))])"
    by (simp add: rewrite_notes_node_def io_defs sample_env_def fixed_env_def)
  show ?thesis
    using 1 pipeline_state_invariant [of sample_env
      "\<lparr>raw_notes = ascii ''X'', refined_notes = None, mermaid_code = None, page_id = ascii ''p1''\<rparr>"
      "[]"]
    by auto
qed

subsection \<open>A failing model in \<open>combine_architecture_diagrams\<close>\<close>



end
